theory Spec2Isabelle
  imports Main
begin

section \<open>Data model\<close>

text \<open>
  The program is one Go file, \<^verbatim>\<open>main.go\<close>: an HTTP handler \<^verbatim>\<open>webhook\<close> that decodes an
  Alertmanager payload, turns every alert into a ServiceNow incident
  (\<^verbatim>\<open>alertToIncident\<close>) and submits the incidents one after the other
  (\<^verbatim>\<open>manageIncidents\<close>), answering with a small JSON document (\<^verbatim>\<open>sendJSONResponse\<close>).

  Go strings are byte strings: \<^typ>\<open>string\<close>. A Go \<^verbatim>\<open>map[string]string\<close> is a map
  \<open>string \<rightharpoonup> string\<close>; the nil map is the empty map. A Go \<^verbatim>\<open>error\<close> is an interface
  value of which the program only asks whether it is nil and what its \<^verbatim>\<open>Error()\<close> text
  is: it is an \<open>error option\<close>, \<open>None\<close> for nil, and \<open>Error e\<close> is the text.
\<close>

datatype error = Err (Error: string)

type_synonym KV = "string \<rightharpoonup> string"

text \<open>
  Indexing a Go map, \<^verbatim>\<open>m[k]\<close>: the value stored under the key, and the zero value of the
  value type (the empty string) when the key is absent or the map is nil. It never panics.
\<close>

definition index :: "KV \<Rightarrow> string \<Rightarrow> string" where
  "index m k = (case m k of None \<Rightarrow> [] | Some v \<Rightarrow> v)"

text \<open>
  \<^verbatim>\<open>template.Alert\<close> and \<^verbatim>\<open>template.Data\<close> of the Alertmanager library, which
  \<^verbatim>\<open>main.go\<close> imports. The program reads \<^verbatim>\<open>Labels\<close>, \<^verbatim>\<open>Annotations\<close>, \<^verbatim>\<open>Alerts\<close>, and (for
  its log line only) \<^verbatim>\<open>Status\<close>, \<^verbatim>\<open>GroupLabels\<close> and \<^verbatim>\<open>CommonLabels\<close>; the other fields
  are carried along. Instants (\<^verbatim>\<open>time.Time\<close>) are integers. The two \<^verbatim>\<open>Status\<close> fields
  are written \<open>AlertStatus\<close> and \<open>DataStatus\<close>, \<open>Status\<close> being the field of the response.
\<close>

record Alert =
  AlertStatus :: string
  Labels :: KV
  Annotations :: KV
  StartsAt :: int
  EndsAt :: int
  GeneratorURL :: string

record Data =
  Receiver :: string
  DataStatus :: string
  Alerts :: "Alert list"
  GroupLabels :: KV
  CommonLabels :: KV
  CommonAnnotations :: KV
  ExternalURL :: string

text \<open>The zero value \<^verbatim>\<open>template.Data{}\<close>: empty strings, nil maps, a nil slice.\<close>

definition Data_zero :: Data where
  "Data_zero = \<lparr>Receiver = [], DataStatus = [], Alerts = [], GroupLabels = Map.empty,
     CommonLabels = Map.empty, CommonAnnotations = Map.empty, ExternalURL = []\<rparr>"

text \<open>
  Modelled from the spec: the declaration of the struct \<^verbatim>\<open>Incident\<close> is in a file of the
  repository that is not at hand. Its seven field names are those of the composite literal
  in \<^verbatim>\<open>alertToIncident\<close>; the spec (section 3) gives the Ticket this fixed set of seven
  fields, all strings.
\<close>

record Incident =
  AssignmentGroup :: string
  ContactType :: string
  CallerID :: string
  Description :: string
  Impact :: string
  ShortDescription :: string
  Urgency :: string

text \<open>
  Modelled from the spec: the declaration of \<^verbatim>\<open>Config\<close> is not at hand either. \<^verbatim>\<open>main.go\<close>
  reads \<^verbatim>\<open>config.ServiceNow.InstanceName\<close>, \<^verbatim>\<open>UserName\<close> and \<^verbatim>\<open>Password\<close>; the spec
  names the same three connection parameters.
\<close>

record ServiceNowConfig =
  InstanceName :: string
  UserName :: string
  Password :: string

record Config =
  ServiceNow :: ServiceNowConfig

text \<open>\<^verbatim>\<open>JSONResponse\<close>, the handler's reply (lines 26 to 29). The struct has no field tags.\<close>

record JSONResponse =
  Status :: int
  Message :: string

text \<open>
  The part of \<^verbatim>\<open>http.Request\<close> that tells requests apart here: the method, the path and
  the bytes of the body.
\<close>

record Request =
  Method :: string
  URL_Path :: string
  Body :: string

text \<open>The three status codes of \<^verbatim>\<open>net/http\<close> that the handler uses.\<close>

definition StatusOK :: int where
  "StatusOK = 200"

definition StatusBadRequest :: int where
  "StatusBadRequest = 400"

definition StatusInternalServerError :: int where
  "StatusInternalServerError = 500"

section \<open>The collaborators\<close>

text \<open>
  UTF-8, as the package \<^verbatim>\<open>unicode/utf8\<close> reads it. \<open>runeSize s\<close> is the number of bytes
  of the encoded code point at the front of \<open>s\<close>, and \<open>None\<close> where
  \<^verbatim>\<open>utf8.DecodeRuneInString\<close> returns \<^verbatim>\<open>RuneError\<close> with width 1: a byte that cannot start
  a sequence (80 to C1, F5 to FF), a sequence cut short by the end of the string, or a
  following byte outside its range (the second byte is A0 to BF after E0, 80 to 9F after
  ED, 90 to BF after F0, 80 to 8F after F4, and 80 to BF otherwise).
\<close>

definition byteIn :: "char \<Rightarrow> nat \<Rightarrow> nat \<Rightarrow> bool" where
  "byteIn c lo hi = (lo \<le> of_char c \<and> of_char c \<le> hi)"

fun runeSize :: "string \<Rightarrow> nat option" where
  "runeSize [] = None"
| "runeSize (c0 # s) =
     (let b0 = (of_char c0 :: nat) in
      if b0 < 0x80 then Some 1
      else if b0 < 0xC2 then None
      else if b0 < 0xE0 then
        (case s of c1 # t \<Rightarrow> if byteIn c1 0x80 0xBF then Some 2 else None | [] \<Rightarrow> None)
      else if b0 < 0xF0 then
        (case s of
           c1 # c2 # t \<Rightarrow>
             if byteIn c1 (if b0 = 0xE0 then 0xA0 else 0x80) (if b0 = 0xED then 0x9F else 0xBF)
                \<and> byteIn c2 0x80 0xBF
             then Some 3 else None
         | _ \<Rightarrow> None)
      else if b0 < 0xF5 then
        (case s of
           c1 # c2 # c3 # t \<Rightarrow>
             if byteIn c1 (if b0 = 0xF0 then 0x90 else 0x80) (if b0 = 0xF4 then 0x8F else 0xBF)
                \<and> byteIn c2 0x80 0xBF \<and> byteIn c3 0x80 0xBF
             then Some 4 else None
         | _ \<Rightarrow> None)
      else None)"

text \<open>\<^verbatim>\<open>utf8.ValidString\<close>: the string is a sequence of encoded code points.\<close>

fun ValidString :: "string \<Rightarrow> bool" where
  "ValidString [] = True"
| "ValidString (c # s) =
     (case runeSize (c # s) of
        None \<Rightarrow> False
      | Some n \<Rightarrow> ValidString (drop (n - 1) s))"

text \<open>
  The string that a JSON string written by \<^verbatim>\<open>encoding/json\<close> stands for. The encoder
  walks the Go string code point by code point and writes the escape of U+FFFD in place
  of every byte at which \<^verbatim>\<open>utf8.DecodeRuneInString\<close> returns \<^verbatim>\<open>RuneError\<close> with width 1;
  all its other escapes stand for the bytes they replace. The decoder does the same to
  the bytes of a string literal. U+FFFD is the three bytes EF BF BD.
\<close>

fun toValidUTF8 :: "string \<Rightarrow> string" where
  "toValidUTF8 [] = []"
| "toValidUTF8 (c # s) =
     (case runeSize (c # s) of
        None \<Rightarrow> [CHR 0xEF, CHR 0xBF, CHR 0xBD] @ toValidUTF8 s
      | Some n \<Rightarrow> c # take (n - 1) s @ toValidUTF8 (drop (n - 1) s))"

text \<open>
  A JSON document, as abstract syntax; a \<open>JString\<close> holds the string the document stands
  for. \<^verbatim>\<open>json.Marshal\<close> of a struct value gives an object with one member per exported
  field, in the order of the declaration, under the field's name when the field has no
  tag: for \<^verbatim>\<open>JSONResponse\<close> the members \<^verbatim>\<open>Status\<close> and \<^verbatim>\<open>Message\<close>. For a struct of an
  int and a string \<^verbatim>\<open>json.Marshal\<close> has no error, which is why the program drops it.
\<close>

datatype json =
  JNumber int | JString string | JArray "json list" | JObject "(string \<times> json) list"

definition Marshal :: "JSONResponse \<Rightarrow> json" where
  "Marshal d =
     JObject [(''Status'', JNumber (Status d)), (''Message'', JString (toValidUTF8 (Message d)))]"

fun members :: "json \<Rightarrow> (string \<times> json) list" where
  "members (JObject ms) = ms"
| "members (JNumber n) = []"
| "members (JString s) = []"
| "members (JArray vs) = []"

text \<open>
  The \<^verbatim>\<open>http.ResponseWriter\<close> is an interface; what the handler does to it is the
  sequence of its calls, oldest first. On the writer of a new request the first
  \<^verbatim>\<open>WriteHeader\<close> sets the status line and \<^verbatim>\<open>Write\<close> sends the body. A failure of
  \<^verbatim>\<open>Write\<close> is only logged by the program, and logging is not part of the model.
\<close>

datatype writer_call = WriteHeader int | Write json

type_synonym ResponseWriter = "writer_call list"

text \<open>
  What a client reads off a writer that was new when the handler got it: the status line is
  the code of the first \<^verbatim>\<open>WriteHeader\<close> (a \<^verbatim>\<open>Write\<close> that comes before any
  \<^verbatim>\<open>WriteHeader\<close> sends status 200 by itself), and the body is what was written, in order.
\<close>

fun statusLine :: "ResponseWriter \<Rightarrow> int option" where
  "statusLine [] = None"
| "statusLine (WriteHeader code # calls) = Some code"
| "statusLine (Write bytes # calls) = Some 200"

fun written :: "ResponseWriter \<Rightarrow> json list" where
  "written [] = []"
| "written (WriteHeader code # calls) = written calls"
| "written (Write bytes # calls) = bytes # written calls"

text \<open>
  The ServiceNow client. The interface \<^verbatim>\<open>ServiceNow\<close> is declared outside \<^verbatim>\<open>main.go\<close>; its
  method \<^verbatim>\<open>CreateIncident\<close> is a parameter \<open>create\<close> of the model: from an incident and the
  client's state to a response, an error or nil, and the client's next state. The global
  \<^verbatim>\<open>serviceNow\<close> is the field \<open>snClient\<close> of the state; \<open>createCalls\<close> records every
  incident that \<^verbatim>\<open>CreateIncident\<close> was called with, oldest first.
\<close>

type_synonym ('s, 'r) create = "Incident \<Rightarrow> 's \<Rightarrow> ('r \<times> error option) \<times> 's"

record 's world =
  snClient :: 's
  createCalls :: "Incident list"

definition CreateIncident ::
  "('s, 'r) create \<Rightarrow> Incident \<Rightarrow> 's world \<Rightarrow> ('r \<times> error option) \<times> 's world" where
  "CreateIncident create incident \<sigma> =
     (case create incident (snClient \<sigma>) of
        (res, s') \<Rightarrow> (res, \<lparr>snClient = s', createCalls = createCalls \<sigma> @ [incident]\<rparr>))"

text \<open>
  \<^verbatim>\<open>json.NewDecoder(r.Body).Decode(&data)\<close> is a parameter \<open>decode\<close> as well: from the bytes
  of the body and the value the target holds before the call to the value it holds after
  it and an error or nil. The next section writes the decoder out on a part of JSON.
\<close>

type_synonym decoder = "string \<Rightarrow> Data \<Rightarrow> Data \<times> error option"

section \<open>The JSON decoder on bodies made of objects, arrays and plain strings\<close>

text \<open>
  What \<^verbatim>\<open>Decode\<close> of \<^verbatim>\<open>encoding/json\<close> does with a body is written out here for a part
  of JSON only: objects, arrays and string literals without a backslash, with white space
  between them. Every function of this section returns \<open>None\<close> where the body leaves
  that part or where the decoder would report an error; \<open>None\<close> says nothing about the
  decoder. Numbers, \<^verbatim>\<open>true\<close>, \<^verbatim>\<open>false\<close>, \<^verbatim>\<open>null\<close> and escapes are outside.

  The scanner follows the state machine of the package: white space is the space, the
  tab, the carriage return and the line feed; a byte below 20 ends a string literal
  with an error; a comma is followed by a member or an element; nesting deeper than
  10000 is an error. \<^verbatim>\<open>Decode\<close> reads one value and leaves what follows it in the
  stream, so the scanner returns the rest of the input. The first argument bounds the
  depth of the recursion (the length of the input is given); where it is too small the
  result is \<open>None\<close>.
\<close>

definition isSpace :: "char \<Rightarrow> bool" where
  "isSpace c = (c = CHR '' '' \<or> c = CHR 0x09 \<or> c = CHR 0x0D \<or> c = CHR 0x0A)"

fun skipSpace :: "string \<Rightarrow> string" where
  "skipSpace [] = []"
| "skipSpace (c # s) = (if isSpace c then skipSpace s else c # s)"

text \<open>
  The input after an opening quote: the bytes up to the closing quote, and what follows
  the closing quote.
\<close>

fun scanString :: "string \<Rightarrow> (string \<times> string) option" where
  "scanString [] = None"
| "scanString (c # s) =
     (if c = CHR 0x22 then Some ([], s)
      else if c = CHR 0x5C then None
      else if (of_char c :: nat) < 0x20 then None
      else (case scanString s of None \<Rightarrow> None | Some (lit, s') \<Rightarrow> Some (c # lit, s')))"

fun scanValue :: "nat \<Rightarrow> nat \<Rightarrow> string \<Rightarrow> (json \<times> string) option"
  and scanMembers :: "nat \<Rightarrow> nat \<Rightarrow> string \<Rightarrow> ((string \<times> json) list \<times> string) option"
  and scanElements :: "nat \<Rightarrow> nat \<Rightarrow> string \<Rightarrow> (json list \<times> string) option" where
  "scanValue 0 depth s = None"
| "scanValue (Suc n) depth s =
     (case skipSpace s of
        [] \<Rightarrow> None
      | c # s1 \<Rightarrow>
          if c = CHR 0x22 then
            (case scanString s1 of
               None \<Rightarrow> None
             | Some (lit, s') \<Rightarrow> Some (JString (toValidUTF8 lit), s'))
          else if c = CHR ''{'' then
            (if 10000 \<le> depth then None
             else case skipSpace s1 of
                    [] \<Rightarrow> None
                  | c1 # s2 \<Rightarrow>
                      if c1 = CHR ''}'' then Some (JObject [], s2)
                      else (case scanMembers n (Suc depth) (c1 # s2) of
                              None \<Rightarrow> None
                            | Some (ms, s') \<Rightarrow> Some (JObject ms, s')))
          else if c = CHR ''['' then
            (if 10000 \<le> depth then None
             else case skipSpace s1 of
                    [] \<Rightarrow> None
                  | c1 # s2 \<Rightarrow>
                      if c1 = CHR '']'' then Some (JArray [], s2)
                      else (case scanElements n (Suc depth) (c1 # s2) of
                              None \<Rightarrow> None
                            | Some (es, s') \<Rightarrow> Some (JArray es, s')))
          else None)"
| "scanMembers 0 depth s = None"
| "scanMembers (Suc n) depth s =
     (case skipSpace s of
        [] \<Rightarrow> None
      | c # s1 \<Rightarrow>
          if c \<noteq> CHR 0x22 then None
          else case scanString s1 of
                 None \<Rightarrow> None
               | Some (lit, s2) \<Rightarrow>
                   (case skipSpace s2 of
                      [] \<Rightarrow> None
                    | c2 # s3 \<Rightarrow>
                        if c2 \<noteq> CHR '':'' then None
                        else case scanValue n depth s3 of
                               None \<Rightarrow> None
                             | Some (v, s4) \<Rightarrow>
                                 (case skipSpace s4 of
                                    [] \<Rightarrow> None
                                  | c4 # s5 \<Rightarrow>
                                      if c4 = CHR ''}'' then Some ([(toValidUTF8 lit, v)], s5)
                                      else if c4 = CHR '','' then
                                        (case scanMembers n depth s5 of
                                           None \<Rightarrow> None
                                         | Some (ms, s') \<Rightarrow>
                                             Some ((toValidUTF8 lit, v) # ms, s'))
                                      else None)))"
| "scanElements 0 depth s = None"
| "scanElements (Suc n) depth s =
     (case scanValue n depth s of
        None \<Rightarrow> None
      | Some (v, s1) \<Rightarrow>
          (case skipSpace s1 of
             [] \<Rightarrow> None
           | c # s2 \<Rightarrow>
               if c = CHR '']'' then Some ([v], s2)
               else if c = CHR '','' then
                 (case scanElements n depth s2 of
                    None \<Rightarrow> None
                  | Some (es, s') \<Rightarrow> Some (v # es, s'))
               else None))"

text \<open>
  The key of a member selects the struct field whose JSON name (the \<^verbatim>\<open>json\<close> tag of the
  field in the Alertmanager library) equals the key, or else equals it up to the case of
  the letters; a key that selects no field is skipped with its value. Keys with a byte
  outside ASCII are left out (\<open>isASCII\<close>), since the package folds some letters outside
  ASCII onto \<^verbatim>\<open>k\<close> and \<^verbatim>\<open>s\<close>.
\<close>

definition toUpper :: "char \<Rightarrow> char" where
  "toUpper c = (if byteIn c 0x61 0x7A then char_of (of_char c - (0x20::nat)) else c)"

definition isASCII :: "string \<Rightarrow> bool" where
  "isASCII s = list_all (\<lambda>c. (of_char c :: nat) < 0x80) s"

definition equalFold :: "string \<Rightarrow> string \<Rightarrow> bool" where
  "equalFold name key = (map toUpper name = map toUpper key)"

definition findField :: "string list \<Rightarrow> string \<Rightarrow> string option" where
  "findField names key =
     (if key \<in> set names then Some key else find (\<lambda>name. equalFold name key) names)"

definition Data_fields :: "string list" where
  "Data_fields = [''receiver'', ''status'', ''alerts'', ''groupLabels'', ''commonLabels'',
     ''commonAnnotations'', ''externalURL'']"














text \<open>No member of the object is stored in any field.\<close>

definition unexpected :: "(string \<times> json) list \<Rightarrow> bool" where
  "unexpected ms = list_all (\<lambda>(k, v). isASCII k \<and> findField Data_fields k = None) ms"




section \<open>The program\<close>

text \<open>\<^verbatim>\<open>alertToIncident\<close> (lines 145 to 156): a composite literal, no failure path.\<close>

definition alertToIncident :: "Alert \<Rightarrow> Incident" where
  "alertToIncident alert =
     \<lparr>AssignmentGroup = index (Labels alert) ''assignment_group'',
      ContactType = ''Monitoring System'',
      CallerID = ''Prometheus'',
      Description = index (Annotations alert) ''description'',
      Impact = ''4'',
      ShortDescription = index (Annotations alert) ''summary'',
      Urgency = ''3''\<rparr>"

text \<open>
  \<^verbatim>\<open>manageIncidents\<close> (lines 127 to 143). The \<^verbatim>\<open>range\<close> loop over \<^verbatim>\<open>data.Alerts\<close> is the
  recursion \<open>incidents_loop\<close>: it returns at the first error, and nil after the last alert.
  The parameter \<^verbatim>\<open>config\<close> is not used by the body.
\<close>

fun incidents_loop ::
  "('s, 'r) create \<Rightarrow> Alert list \<Rightarrow> 's world \<Rightarrow> error option \<times> 's world" where
  "incidents_loop create [] \<sigma> = (None, \<sigma>)"
| "incidents_loop create (alert # rest) \<sigma> =
     (let incident = alertToIncident alert in
      case CreateIncident create incident \<sigma> of
        ((response, err), \<sigma>') \<Rightarrow>
          if err \<noteq> None then (err, \<sigma>') else incidents_loop create rest \<sigma>')"

definition manageIncidents ::
  "('s, 'r) create \<Rightarrow> Data \<Rightarrow> Config \<Rightarrow> 's world \<Rightarrow> error option \<times> 's world" where
  "manageIncidents create data config \<sigma> = incidents_loop create (Alerts data) \<sigma>"

text \<open>
  \<^verbatim>\<open>readRequestBody\<close> (lines 88 to 98): decode into a zero \<^verbatim>\<open>template.Data\<close> and return
  both the value and the error. The deferred close of the body does not change the result.
\<close>

definition readRequestBody :: "decoder \<Rightarrow> Request \<Rightarrow> Data \<times> error option" where
  "readRequestBody decode r = decode (Body r) Data_zero"

text \<open>\<^verbatim>\<open>sendJSONResponse\<close> (lines 73 to 86).\<close>

definition sendJSONResponse :: "ResponseWriter \<Rightarrow> int \<Rightarrow> string \<Rightarrow> ResponseWriter" where
  "sendJSONResponse w status message =
     (let data = \<lparr>Status = status, Message = message\<rparr>;
          bytes = Marshal data
      in w @ [WriteHeader status, Write bytes])"

text \<open>\<^verbatim>\<open>webhook\<close> (lines 31 to 50). The global \<^verbatim>\<open>config\<close> is a parameter.\<close>

definition webhook ::
  "decoder \<Rightarrow> ('s, 'r) create \<Rightarrow> Config \<Rightarrow> ResponseWriter \<Rightarrow> Request \<Rightarrow> 's world
     \<Rightarrow> ResponseWriter \<times> 's world" where
  "webhook decode create config w r \<sigma> =
     (case readRequestBody decode r of
        (data, Some err) \<Rightarrow> (sendJSONResponse w StatusBadRequest (Error err), \<sigma>)
      | (data, None) \<Rightarrow>
          (case manageIncidents create data config \<sigma> of
             (Some err, \<sigma>') \<Rightarrow> (sendJSONResponse w StatusInternalServerError (Error err), \<sigma>')
           | (None, \<sigma>') \<Rightarrow> (sendJSONResponse w StatusOK ''Success'', \<sigma>')))"

text \<open>
  The registrations of \<^verbatim>\<open>main\<close> (lines 66 and 67) on the default mux: two patterns, each a
  path and nothing else, so the mux picks the handler from the path of the request and
  never looks at the method. \<open>other\<close> stands for what is outside the program: the metrics
  handler of the Prometheus client library and the mux's reply to an unknown path.
\<close>

datatype handler = Webhook | Metrics

definition handlers :: "(string \<times> handler) list" where
  "handlers = [(''/webhook'', Webhook), (''/metrics'', Metrics)]"

definition serve ::
  "decoder \<Rightarrow> ('s, 'r) create \<Rightarrow> Config
     \<Rightarrow> (ResponseWriter \<Rightarrow> Request \<Rightarrow> 's world \<Rightarrow> ResponseWriter \<times> 's world)
     \<Rightarrow> ResponseWriter \<Rightarrow> Request \<Rightarrow> 's world \<Rightarrow> ResponseWriter \<times> 's world" where
  "serve decode create config other w r \<sigma> =
     (case map_of handlers (URL_Path r) of
        Some Webhook \<Rightarrow> webhook decode create config w r \<sigma>
      | Some Metrics \<Rightarrow> other w r \<sigma>
      | None \<Rightarrow> other w r \<sigma>)"

section \<open>The outcome of one submission in a batch\<close>

text \<open>
  \<open>submission create s alerts i\<close> is what \<^verbatim>\<open>CreateIncident\<close> returns as its error for the
  alert at index \<open>i\<close> of the batch when the client starts in state \<open>s\<close> and the alerts
  before index \<open>i\<close> have been submitted in their order: \<open>None\<close> for success. It is the
  vocabulary of the statements about batches and is built from \<open>create\<close> alone.
\<close>

fun submission :: "('s, 'r) create \<Rightarrow> 's \<Rightarrow> Alert list \<Rightarrow> nat \<Rightarrow> error option" where
  "submission create s [] i = None"
| "submission create s (alert # rest) 0 = snd (fst (create (alertToIncident alert) s))"
| "submission create s (alert # rest) (Suc i) =
     submission create (snd (create (alertToIncident alert) s)) rest i"

section \<open>A stub client, a stub decoder and sample requests\<close>

text \<open>
  A client whose state counts the calls it has served. It rejects an incident with an
  empty assignment group, and every incident once it has served three.
\<close>

definition stub_create :: "(nat, string) create" where
  "stub_create incident n =
     (if AssignmentGroup incident = [] then ((''rejected'', Some (Err ''no assignment group'')), Suc n)
      else if 3 \<le> n then (([], Some (Err ''quota exceeded'')), Suc n)
      else ((''created'', None), Suc n))"

text \<open>
  A client that fails every call and passes on, as the text of its error, a byte that it
  received: FF, which is not UTF-8.
\<close>

definition garbled_create :: "(nat, string) create" where
  "garbled_create incident n = (([], Some (Err (''bad reply '' @ [CHR 0xFF]))), Suc n)"

definition world0 :: "nat world" where
  "world0 = \<lparr>snClient = 0, createCalls = []\<rparr>"

definition config0 :: Config where
  "config0 = \<lparr>ServiceNow = \<lparr>InstanceName = ''dev'', UserName = ''bot'', Password = ''pw''\<rparr>\<rparr>"

definition alert_G :: Alert where
  "alert_G = \<lparr>AlertStatus = ''firing'',
     Labels = [''assignment_group'' \<mapsto> ''G'', ''severity'' \<mapsto> ''page''],
     Annotations = [''summary'' \<mapsto> ''S'', ''description'' \<mapsto> ''D''],
     StartsAt = 10, EndsAt = 0, GeneratorURL = ''http://prom/g''\<rparr>"

definition alert_G' :: Alert where
  "alert_G' = \<lparr>AlertStatus = ''resolved'',
     Labels = [''assignment_group'' \<mapsto> ''G'', ''severity'' \<mapsto> ''page''],
     Annotations = [''summary'' \<mapsto> ''S'', ''description'' \<mapsto> ''D''],
     StartsAt = 10, EndsAt = 25, GeneratorURL = ''http://prom/h''\<rparr>"

definition alert_bare :: Alert where
  "alert_bare = \<lparr>AlertStatus = ''firing'', Labels = Map.empty,
     Annotations = [''summary'' \<mapsto> ''T''],
     StartsAt = 11, EndsAt = 0, GeneratorURL = []\<rparr>"

text \<open>
  A decoder defined on four bodies. It leaves the target as it is on \<^verbatim>\<open>{}\<close>, fills in
  the alerts on the bodies \<^verbatim>\<open>good\<close> and \<^verbatim>\<open>mixed\<close>, and has an error on every other body.
\<close>

definition stub_decode :: decoder where
  "stub_decode body d =
     (if body = ''{}'' then (d, None)
      else if body = ''good'' then (d\<lparr>DataStatus := ''firing'', Alerts := [alert_G, alert_G']\<rparr>, None)
      else if body = ''mixed'' then
        (d\<lparr>DataStatus := ''firing'', Alerts := [alert_G, alert_bare, alert_G']\<rparr>, None)
      else (d, Some (Err ''unexpected EOF'')))"

definition request :: "string \<Rightarrow> string \<Rightarrow> Request" where
  "request m b = \<lparr>Method = m, URL_Path = ''/webhook'', Body = b\<rparr>"





section \<open>The mapper\<close>

lemma index_absent: "m k = None \<Longrightarrow> index m k = []"
  by (simp add: index_def)

lemma index_present: "m k = Some v \<Longrightarrow> index m k = v"
  by (simp add: index_def)

text \<open>
  Claim C1. For every alert \<^verbatim>\<open>alertToIncident\<close> returns an incident (the function has no
  error result and no panic: indexing a Go map never fails), and its seven fields are:
  the assignment group is the label \<^verbatim>\<open>assignment_group\<close>, the empty string when the label
  is absent; the contact type is "Monitoring System"; the caller id is "Prometheus";
  the description is the annotation \<^verbatim>\<open>description\<close>, the empty string when absent; the
  impact is "4"; the short description is the annotation \<^verbatim>\<open>summary\<close>, the empty string
  when absent; the urgency is "3".
\<close>

theorem alertToIncident_fields:
  "alertToIncident alert =
     \<lparr>AssignmentGroup =
        (case Labels alert ''assignment_group'' of None \<Rightarrow> '''' | Some g \<Rightarrow> g),
      ContactType = ''Monitoring System'',
      CallerID = ''Prometheus'',
      Description =
        (case Annotations alert ''description'' of None \<Rightarrow> '''' | Some d \<Rightarrow> d),
      Impact = ''4'',
      ShortDescription =
        (case Annotations alert ''summary'' of None \<Rightarrow> '''' | Some s \<Rightarrow> s),
      Urgency = ''3''\<rparr>"
  by (simp add: alertToIncident_def index_def)

text \<open>
  Claim C8. The mapping is deterministic and the incident is determined by the labels and
  the annotations of the alert: two alerts with the same labels and the same annotations,
  whatever their other fields, are mapped to the same incident. (The same alert twice is
  the case where the two alerts are equal.)
\<close>

theorem alertToIncident_determined:
  assumes "Labels a = Labels b" and "Annotations a = Annotations b"
  shows "alertToIncident a = alertToIncident b"
  using assms by (simp add: alertToIncident_def)

theorem alertToIncident_determined_witness:
  "Labels alert_G = Labels alert_G' \<and> Annotations alert_G = Annotations alert_G'
   \<and> alert_G \<noteq> alert_G'
   \<and> alertToIncident alert_G = alertToIncident alert_G'
   \<and> alertToIncident alert_G =
       \<lparr>AssignmentGroup = ''G'', ContactType = ''Monitoring System'', CallerID = ''Prometheus'',
        Description = ''D'', Impact = ''4'', ShortDescription = ''S'', Urgency = ''3''\<rparr>"
proof -
  have l: "Labels alert_G = Labels alert_G'"
    by (simp add: alert_G_def alert_G'_def)
  have a: "Annotations alert_G = Annotations alert_G'"
    by (simp add: alert_G_def alert_G'_def)
  have d: "alert_G \<noteq> alert_G'"
    by (simp add: alert_G_def alert_G'_def)
  have v: "alertToIncident alert_G =
       \<lparr>AssignmentGroup = ''G'', ContactType = ''Monitoring System'', CallerID = ''Prometheus'',
        Description = ''D'', Impact = ''4'', ShortDescription = ''S'', Urgency = ''3''\<rparr>"
    by (simp add: alertToIncident_def index_def alert_G_def)
  from l a d v alertToIncident_determined [OF l a] show ?thesis
    by simp
qed

section \<open>The ingestion pipeline\<close>

lemma CreateIncident_result:
  "fst (CreateIncident create incident \<sigma>) = fst (create incident (snClient \<sigma>))"
  by (simp add: CreateIncident_def split: prod.splits)

lemma CreateIncident_client:
  "snClient (snd (CreateIncident create incident \<sigma>)) = snd (create incident (snClient \<sigma>))"
  by (simp add: CreateIncident_def split: prod.splits)

lemma CreateIncident_calls:
  "createCalls (snd (CreateIncident create incident \<sigma>)) = createCalls \<sigma> @ [incident]"
  by (simp add: CreateIncident_def split: prod.splits)

text \<open>One turn of the loop, with the result of the call named.\<close>

lemma incidents_loop_step:
  "incidents_loop create (alert # rest) \<sigma> =
     (let p = CreateIncident create (alertToIncident alert) \<sigma> in
      if snd (fst p) \<noteq> None then (snd (fst p), snd p)
      else incidents_loop create rest (snd p))"
  by (simp add: Let_def split: prod.splits)

text \<open>
  The loop stops at the first failing submission: induction on the batch, the index and
  the state generalised, since each turn moves both.
\<close>

lemma incidents_loop_first_failure:
  assumes "k < length alerts"
    and "\<forall>i<k. submission create (snClient \<sigma>) alerts i = None"
    and "submission create (snClient \<sigma>) alerts k = Some e"
  shows "fst (incidents_loop create alerts \<sigma>) = Some e \<and>
         createCalls (snd (incidents_loop create alerts \<sigma>)) =
           createCalls \<sigma> @ map alertToIncident (take (Suc k) alerts)"
  using assms
proof (induction alerts arbitrary: k \<sigma>)
  case Nil
  then show ?case by simp
next
  case (Cons alert rest)
  let ?p = "CreateIncident create (alertToIncident alert) \<sigma>"
  show ?case
  proof (cases k)
    case 0
    with Cons.prems(3) have "snd (fst ?p) = Some e"
      by (simp add: CreateIncident_result)
    with 0 show ?thesis
      by (simp add: incidents_loop_step Let_def CreateIncident_calls del: incidents_loop.simps)
  next
    case (Suc j)
    from Cons.prems(2) Suc have "submission create (snClient \<sigma>) (alert # rest) 0 = None"
      by blast
    then have ok: "snd (fst ?p) = None"
      by (simp add: CreateIncident_result)
    have len: "j < length rest"
      using Cons.prems(1) Suc by simp
    have before: "\<forall>i<j. submission create (snClient (snd ?p)) rest i = None"
    proof (intro allI impI)
      fix i assume "i < j"
      then have "Suc i < k" using Suc by simp
      with Cons.prems(2) have "submission create (snClient \<sigma>) (alert # rest) (Suc i) = None"
        by blast
      then show "submission create (snClient (snd ?p)) rest i = None"
        by (simp add: CreateIncident_client)
    qed
    have at: "submission create (snClient (snd ?p)) rest j = Some e"
      using Cons.prems(3) Suc by (simp add: CreateIncident_client)
    from Cons.IH [OF len before at] ok Suc show ?thesis
      by (simp add: incidents_loop_step Let_def CreateIncident_calls del: incidents_loop.simps)
  qed
qed

text \<open>When no submission fails the loop reaches the end of the batch.\<close>

lemma incidents_loop_all_succeed:
  assumes "\<forall>i<length alerts. submission create (snClient \<sigma>) alerts i = None"
  shows "fst (incidents_loop create alerts \<sigma>) = None \<and>
         createCalls (snd (incidents_loop create alerts \<sigma>)) =
           createCalls \<sigma> @ map alertToIncident alerts"
  using assms
proof (induction alerts arbitrary: \<sigma>)
  case Nil
  then show ?case by simp
next
  case (Cons alert rest)
  let ?p = "CreateIncident create (alertToIncident alert) \<sigma>"
  from Cons.prems have "submission create (snClient \<sigma>) (alert # rest) 0 = None"
    by (metis length_Cons zero_less_Suc)
  then have ok: "snd (fst ?p) = None"
    by (simp add: CreateIncident_result)
  have later: "\<forall>i<length rest. submission create (snClient (snd ?p)) rest i = None"
  proof (intro allI impI)
    fix i assume "i < length rest"
    then have "Suc i < length (alert # rest)" by simp
    with Cons.prems have "submission create (snClient \<sigma>) (alert # rest) (Suc i) = None"
      by blast
    then show "submission create (snClient (snd ?p)) rest i = None"
      by (simp add: CreateIncident_client)
  qed
  from Cons.IH [OF later] ok show ?case
    by (simp add: incidents_loop_step Let_def CreateIncident_calls del: incidents_loop.simps)
qed

text \<open>The outcomes of the stub client on the sample batches.\<close>

lemma submission_mixed:
  "submission stub_create 0 [alert_G, alert_bare, alert_G'] 0 = None"
  "submission stub_create 0 [alert_G, alert_bare, alert_G'] 1 = Some (Err ''no assignment group'')"
  by (simp_all add: stub_create_def alertToIncident_def index_def alert_G_def alert_bare_def)

lemma submission_good:
  "submission stub_create 0 [alert_G, alert_G'] 0 = None"
  "submission stub_create 0 [alert_G, alert_G'] (Suc 0) = None"
  by (simp_all add: stub_create_def alertToIncident_def index_def alert_G_def alert_G'_def)

text \<open>
  Claim C2. When the submission for the alert at index \<open>k\<close> of the batch fails with an
  error and the submissions for all alerts before it succeed, \<^verbatim>\<open>manageIncidents\<close> returns
  that error; the calls of \<^verbatim>\<open>CreateIncident\<close> it has made are those for the alerts at
  the indices \<open>0\<close> to \<open>k\<close>, in that order: \<open>k + 1\<close> calls, none for a later alert.
\<close>

theorem manageIncidents_fail_fast:
  assumes "k < length (Alerts data)"
    and "\<forall>i<k. submission create (snClient \<sigma>) (Alerts data) i = None"
    and "submission create (snClient \<sigma>) (Alerts data) k = Some e"
  shows "fst (manageIncidents create data config \<sigma>) = Some e
       \<and> createCalls (snd (manageIncidents create data config \<sigma>)) =
           createCalls \<sigma> @ map alertToIncident (take (k + 1) (Alerts data))
       \<and> length (createCalls (snd (manageIncidents create data config \<sigma>))) =
           length (createCalls \<sigma>) + (k + 1)"
proof -
  note r = incidents_loop_first_failure [OF assms]
  have res: "fst (manageIncidents create data config \<sigma>) = Some e"
    using r by (simp add: manageIncidents_def)
  have calls: "createCalls (snd (manageIncidents create data config \<sigma>)) =
          createCalls \<sigma> @ map alertToIncident (take (k + 1) (Alerts data))"
    using r by (simp add: manageIncidents_def)
  then have "length (createCalls (snd (manageIncidents create data config \<sigma>))) =
          length (createCalls \<sigma>) + (k + 1)"
    using assms(1) by simp
  with res calls show ?thesis
    by blast
qed

theorem manageIncidents_fail_fast_witness:
  "fst (manageIncidents stub_create (Data_zero\<lparr>Alerts := [alert_G, alert_bare, alert_G']\<rparr>)
          config0 world0) = Some (Err ''no assignment group'')
   \<and> createCalls (snd (manageIncidents stub_create
          (Data_zero\<lparr>Alerts := [alert_G, alert_bare, alert_G']\<rparr>) config0 world0)) =
       [alertToIncident alert_G, alertToIncident alert_bare]
   \<and> length (createCalls (snd (manageIncidents stub_create
          (Data_zero\<lparr>Alerts := [alert_G, alert_bare, alert_G']\<rparr>) config0 world0))) = 2"
proof -
  let ?d = "Data_zero\<lparr>Alerts := [alert_G, alert_bare, alert_G']\<rparr>"
  have h1: "1 < length (Alerts ?d)"
    by simp
  have h2: "\<forall>i<1. submission stub_create (snClient world0) (Alerts ?d) i = None"
    using submission_mixed(1) by (simp add: world0_def)
  have h3: "submission stub_create (snClient world0) (Alerts ?d) 1
              = Some (Err ''no assignment group'')"
    using submission_mixed(2) by (simp add: world0_def)
  from manageIncidents_fail_fast [OF h1 h2 h3, of config0] show ?thesis
    by (simp add: world0_def)
qed

text \<open>
  Claim C3. When every submission of the batch succeeds, \<^verbatim>\<open>manageIncidents\<close> returns nil
  and has called \<^verbatim>\<open>CreateIncident\<close> once for each alert, with the incident of that alert,
  in the order of the batch: as many calls as the batch has alerts.
\<close>

theorem manageIncidents_all_succeed:
  assumes "\<forall>i<length (Alerts data). submission create (snClient \<sigma>) (Alerts data) i = None"
  shows "fst (manageIncidents create data config \<sigma>) = None
       \<and> createCalls (snd (manageIncidents create data config \<sigma>)) =
           createCalls \<sigma> @ map alertToIncident (Alerts data)
       \<and> length (createCalls (snd (manageIncidents create data config \<sigma>))) =
           length (createCalls \<sigma>) + length (Alerts data)"
proof -
  note r = incidents_loop_all_succeed [OF assms]
  have res: "fst (manageIncidents create data config \<sigma>) = None"
    using r by (simp add: manageIncidents_def)
  have calls: "createCalls (snd (manageIncidents create data config \<sigma>)) =
          createCalls \<sigma> @ map alertToIncident (Alerts data)"
    using r by (simp add: manageIncidents_def)
  then have "length (createCalls (snd (manageIncidents create data config \<sigma>))) =
          length (createCalls \<sigma>) + length (Alerts data)"
    by simp
  with res calls show ?thesis
    by blast
qed

theorem manageIncidents_all_succeed_witness:
  "fst (manageIncidents stub_create (Data_zero\<lparr>Alerts := [alert_G, alert_G']\<rparr>)
          config0 world0) = None
   \<and> createCalls (snd (manageIncidents stub_create
          (Data_zero\<lparr>Alerts := [alert_G, alert_G']\<rparr>) config0 world0)) =
       [alertToIncident alert_G, alertToIncident alert_G']
   \<and> length (createCalls (snd (manageIncidents stub_create
          (Data_zero\<lparr>Alerts := [alert_G, alert_G']\<rparr>) config0 world0))) = 2"
proof -
  let ?d = "Data_zero\<lparr>Alerts := [alert_G, alert_G']\<rparr>"
  have h: "\<forall>i<length (Alerts ?d). submission stub_create (snClient world0) (Alerts ?d) i = None"
    using submission_good by (simp add: world0_def All_less_Suc)
  from manageIncidents_all_succeed [OF h, of config0] show ?thesis
    by (simp add: world0_def)
qed

section \<open>The endpoint\<close>

text \<open>A string that is valid UTF-8 is written as it is.\<close>

lemma toValidUTF8_valid: "ValidString s \<Longrightarrow> toValidUTF8 s = s"
  by (induction s rule: ValidString.induct) (auto split: option.splits)

lemma toValidUTF8_Success: "toValidUTF8 ''Success'' = ''Success''"
  by simp

lemma sendJSONResponse_calls:
  "sendJSONResponse w status message =
     w @ [WriteHeader status,
          Write (JObject [(''Status'', JNumber status),
                          (''Message'', JString (toValidUTF8 message))])]"
  by (simp add: sendJSONResponse_def Marshal_def)

text \<open>The three ways through the handler, one lemma each.\<close>

lemma webhook_decode_error:
  "snd (readRequestBody decode r) = Some e \<Longrightarrow>
   webhook decode create config w r \<sigma> = (sendJSONResponse w StatusBadRequest (Error e), \<sigma>)"
  by (cases "readRequestBody decode r") (simp add: webhook_def)

lemma webhook_submission_error:
  "snd (readRequestBody decode r) = None \<Longrightarrow>
   fst (manageIncidents create (fst (readRequestBody decode r)) config \<sigma>) = Some e \<Longrightarrow>
   webhook decode create config w r \<sigma> =
     (sendJSONResponse w StatusInternalServerError (Error e),
      snd (manageIncidents create (fst (readRequestBody decode r)) config \<sigma>))"
  by (cases "readRequestBody decode r";
      cases "manageIncidents create (fst (readRequestBody decode r)) config \<sigma>")
     (simp add: webhook_def)

lemma webhook_success:
  "snd (readRequestBody decode r) = None \<Longrightarrow>
   fst (manageIncidents create (fst (readRequestBody decode r)) config \<sigma>) = None \<Longrightarrow>
   webhook decode create config w r \<sigma> =
     (sendJSONResponse w StatusOK ''Success'',
      snd (manageIncidents create (fst (readRequestBody decode r)) config \<sigma>))"
  by (cases "readRequestBody decode r";
      cases "manageIncidents create (fst (readRequestBody decode r)) config \<sigma>")
     (simp add: webhook_def)

text \<open>The handler on the sample requests, by evaluation.\<close>

lemma webhook_good:
  "webhook stub_decode stub_create config0 [] (request m ''good'') world0 =
     ([WriteHeader 200,
       Write (JObject [(''Status'', JNumber 200), (''Message'', JString ''Success'')])],
      \<lparr>snClient = 2, createCalls = [alertToIncident alert_G, alertToIncident alert_G']\<rparr>)"
  by (simp add: webhook_def readRequestBody_def stub_decode_def request_def Data_zero_def
      manageIncidents_def CreateIncident_def stub_create_def world0_def sendJSONResponse_def
      Marshal_def StatusOK_def alertToIncident_def index_def alert_G_def alert_G'_def Let_def)

lemma webhook_mixed:
  "webhook stub_decode stub_create config0 [] (request m ''mixed'') world0 =
     ([WriteHeader 500,
       Write (JObject [(''Status'', JNumber 500),
                       (''Message'', JString ''no assignment group'')])],
      \<lparr>snClient = 2, createCalls = [alertToIncident alert_G, alertToIncident alert_bare]\<rparr>)"
  by (simp add: webhook_def readRequestBody_def stub_decode_def request_def Data_zero_def
      manageIncidents_def CreateIncident_def stub_create_def world0_def sendJSONResponse_def
      Marshal_def StatusInternalServerError_def alertToIncident_def index_def alert_G_def
      alert_bare_def Let_def)

lemma webhook_bad:
  "webhook stub_decode stub_create config0 [] (request m ''{'') world0 =
     ([WriteHeader 400,
       Write (JObject [(''Status'', JNumber 400),
                       (''Message'', JString ''unexpected EOF'')])],
      world0)"
  by (simp add: webhook_def readRequestBody_def stub_decode_def request_def
      sendJSONResponse_def Marshal_def StatusBadRequest_def)



text \<open>
  Claim C5, as the spec states it: when \<^verbatim>\<open>manageIncidents\<close> returns an error the message
  of the response is exactly the text of that error, unmodified. It fails for a client
  whose error text is not valid UTF-8: \<^verbatim>\<open>json.Marshal\<close> writes U+FFFD (the bytes EF BF BD)
  in place of the byte FF, so the message differs from the text of the error.
\<close>

theorem webhook_submission_message_counterexample:
  "snd (readRequestBody stub_decode (request ''POST'' ''good'')) = None
   \<and> fst (manageIncidents garbled_create
            (fst (readRequestBody stub_decode (request ''POST'' ''good''))) config0 world0) =
       Some (Err (''bad reply '' @ [CHR 0xFF]))
   \<and> written (fst (webhook stub_decode garbled_create config0 []
                      (request ''POST'' ''good'') world0)) =
       [JObject [(''Status'', JNumber 500),
                 (''Message'', JString (''bad reply '' @ [CHR 0xEF, CHR 0xBF, CHR 0xBD]))]]
   \<and> ''bad reply '' @ [CHR 0xEF, CHR 0xBF, CHR 0xBD] \<noteq> ''bad reply '' @ [CHR 0xFF]"
  by (simp add: webhook_def readRequestBody_def stub_decode_def request_def Data_zero_def
      manageIncidents_def CreateIncident_def garbled_create_def world0_def
      sendJSONResponse_def Marshal_def StatusInternalServerError_def Let_def)

text \<open>
  Claim C5, amended. When the body decodes and \<^verbatim>\<open>manageIncidents\<close> returns an error, the
  handler answers with status 500 and, as the message, the text of that error as
  \<^verbatim>\<open>json.Marshal\<close> writes a string: every byte that is not part of a valid UTF-8 sequence
  is replaced by U+FFFD. When the text of the error is valid UTF-8 the message is exactly
  that text.
\<close>

theorem webhook_submission_failure:
  assumes "snd (readRequestBody decode r) = None"
    and "fst (manageIncidents create (fst (readRequestBody decode r)) config \<sigma>) = Some e"
  shows "fst (webhook decode create config w r \<sigma>) =
           w @ [WriteHeader 500,
                Write (JObject [(''Status'', JNumber 500),
                                (''Message'', JString (toValidUTF8 (Error e)))])]
       \<and> (ValidString (Error e) \<longrightarrow>
            fst (webhook decode create config w r \<sigma>) =
              w @ [WriteHeader 500,
                   Write (JObject [(''Status'', JNumber 500), (''Message'', JString (Error e))])])
       \<and> statusLine (fst (webhook decode create config [] r \<sigma>)) = Some 500"
  by (simp add: webhook_submission_error [OF assms] sendJSONResponse_calls
      StatusInternalServerError_def toValidUTF8_valid)

theorem webhook_submission_failure_witness:
  "snd (readRequestBody stub_decode (request ''POST'' ''mixed'')) = None
   \<and> fst (manageIncidents stub_create (fst (readRequestBody stub_decode (request ''POST'' ''mixed'')))
            config0 world0) = Some (Err ''no assignment group'')
   \<and> ValidString (Error (Err ''no assignment group''))
   \<and> fst (webhook stub_decode stub_create config0 [] (request ''POST'' ''mixed'') world0) =
       [WriteHeader 500,
        Write (JObject [(''Status'', JNumber 500),
                        (''Message'', JString ''no assignment group'')])]
   \<and> statusLine (fst (webhook stub_decode stub_create config0 [] (request ''POST'' ''mixed'')
        world0)) = Some 500"
proof -
  have h1: "snd (readRequestBody stub_decode (request ''POST'' ''mixed'')) = None"
    by (simp add: readRequestBody_def stub_decode_def request_def)
  have h2: "fst (manageIncidents stub_create
                  (fst (readRequestBody stub_decode (request ''POST'' ''mixed''))) config0 world0)
              = Some (Err ''no assignment group'')"
    by (simp add: readRequestBody_def stub_decode_def request_def Data_zero_def
        manageIncidents_def CreateIncident_def stub_create_def world0_def Let_def
        alertToIncident_def index_def alert_G_def alert_bare_def)
  have v: "ValidString (Error (Err ''no assignment group''))"
    by simp
  note t = webhook_submission_failure [OF h1 h2, of "[]"]
  from t v have "fst (webhook stub_decode stub_create config0 [] (request ''POST'' ''mixed'')
        world0) =
       [WriteHeader 500,
        Write (JObject [(''Status'', JNumber 500),
                        (''Message'', JString ''no assignment group'')])]"
    by simp
  with h1 h2 v t show ?thesis
    by simp
qed

text \<open>
  Claim C7. When the body decodes and \<^verbatim>\<open>manageIncidents\<close> returns nil, the handler answers
  with status 200 and the message "Success".
\<close>

theorem webhook_full_success:
  assumes "snd (readRequestBody decode r) = None"
    and "fst (manageIncidents create (fst (readRequestBody decode r)) config \<sigma>) = None"
  shows "fst (webhook decode create config w r \<sigma>) =
           w @ [WriteHeader 200,
                Write (JObject [(''Status'', JNumber 200), (''Message'', JString ''Success'')])]
       \<and> statusLine (fst (webhook decode create config [] r \<sigma>)) = Some 200"
  by (simp add: webhook_success [OF assms] sendJSONResponse_calls StatusOK_def)

theorem webhook_full_success_witness:
  "snd (readRequestBody stub_decode (request ''POST'' ''good'')) = None
   \<and> fst (manageIncidents stub_create (fst (readRequestBody stub_decode (request ''POST'' ''good'')))
            config0 world0) = None
   \<and> fst (webhook stub_decode stub_create config0 [] (request ''POST'' ''good'') world0) =
       [WriteHeader 200,
        Write (JObject [(''Status'', JNumber 200), (''Message'', JString ''Success'')])]
   \<and> statusLine (fst (webhook stub_decode stub_create config0 [] (request ''POST'' ''good'')
        world0)) = Some 200"
proof -
  have h1: "snd (readRequestBody stub_decode (request ''POST'' ''good'')) = None"
    by (simp add: readRequestBody_def stub_decode_def request_def)
  have h2: "fst (manageIncidents stub_create
                  (fst (readRequestBody stub_decode (request ''POST'' ''good''))) config0 world0)
              = None"
    by (simp add: readRequestBody_def stub_decode_def request_def Data_zero_def
        manageIncidents_def CreateIncident_def stub_create_def world0_def Let_def
        alertToIncident_def index_def alert_G_def alert_G'_def)
  from h1 h2 webhook_full_success [OF h1 h2, of "[]"] show ?thesis
    by simp
qed

text \<open>
  Claim C6, as the spec states it: the body of every response is a JSON object with the
  keys "status" and "message". It fails on the successful request below: \<^verbatim>\<open>JSONResponse\<close>
  has no field tags, so the keys of the object are the names of the Go fields, "Status"
  and "Message", and the object has no member "status" and no member "message".
\<close>

theorem webhook_response_keys_counterexample:
  "written (fst (webhook stub_decode stub_create config0 [] (request ''POST'' ''good'') world0)) =
     [JObject [(''Status'', JNumber 200), (''Message'', JString ''Success'')]]
   \<and> map fst (members (JObject [(''Status'', JNumber 200), (''Message'', JString ''Success'')]))
       = [''Status'', ''Message'']
   \<and> map_of (members (JObject [(''Status'', JNumber 200), (''Message'', JString ''Success'')]))
        ''status'' = None
   \<and> map_of (members (JObject [(''Status'', JNumber 200), (''Message'', JString ''Success'')]))
        ''message'' = None"
  by (simp add: webhook_good)

text \<open>
  Claim C6, amended. Every response of the handler (success, decode failure or submission
  failure) is one \<^verbatim>\<open>WriteHeader\<close> followed by one \<^verbatim>\<open>Write\<close>: the body is a JSON object
  with the two members "Status" and "Message", in this order, "Status" holds the
  numeric code, which is 200, 400 or 500, and the status line is that same code.
\<close>

theorem webhook_response_shape:
  "\<exists>code msg. (code = 200 \<or> code = 400 \<or> code = 500)
     \<and> fst (webhook decode create config w r \<sigma>) =
         w @ [WriteHeader code,
              Write (JObject [(''Status'', JNumber code), (''Message'', JString msg)])]
     \<and> statusLine (fst (webhook decode create config [] r \<sigma>)) = Some code
     \<and> written (fst (webhook decode create config [] r \<sigma>)) =
         [JObject [(''Status'', JNumber code), (''Message'', JString msg)]]"
proof (cases "snd (readRequestBody decode r)")
  case (Some e)
  have "fst (webhook decode create config v r \<sigma>) =
          v @ [WriteHeader 400,
               Write (JObject [(''Status'', JNumber 400), (''Message'', JString (toValidUTF8 (Error e)))])]"
    for v
    by (simp add: webhook_decode_error [OF Some] sendJSONResponse_calls StatusBadRequest_def)
  then show ?thesis by simp
next
  case None
  show ?thesis
  proof (cases "fst (manageIncidents create (fst (readRequestBody decode r)) config \<sigma>)")
    case (Some e)
    have "fst (webhook decode create config v r \<sigma>) =
            v @ [WriteHeader 500,
                 Write (JObject [(''Status'', JNumber 500), (''Message'', JString (toValidUTF8 (Error e)))])]"
      for v
      by (simp add: webhook_submission_error [OF None Some] sendJSONResponse_calls StatusInternalServerError_def)
    then show ?thesis by simp
  next
    case ok: None
    have "fst (webhook decode create config v r \<sigma>) =
            v @ [WriteHeader 200,
                 Write (JObject [(''Status'', JNumber 200), (''Message'', JString ''Success'')])]"
      for v
      by (simp add: webhook_success [OF None ok] sendJSONResponse_calls StatusOK_def)
    then show ?thesis by simp
  qed
qed

section \<open>Underspecified payloads and the request method\<close>



















text \<open>
  Claim C10. \<^verbatim>\<open>main\<close> registers \<^verbatim>\<open>webhook\<close> under the pattern \<^verbatim>\<open>/webhook\<close>, which names no
  method, and \<^verbatim>\<open>webhook\<close> never reads the method of the request. So a request to
  \<^verbatim>\<open>/webhook\<close> is served by \<^verbatim>\<open>webhook\<close> whatever its method is, and with any method the
  answer and the effect on the client are those of the same request sent as a POST.
\<close>

theorem webhook_any_method:
  assumes "URL_Path r = ''/webhook''"
  shows "serve decode create config other w (r\<lparr>Method := m\<rparr>) \<sigma> =
           webhook decode create config w r \<sigma>
       \<and> serve decode create config other w (r\<lparr>Method := m\<rparr>) \<sigma> =
           serve decode create config other w (r\<lparr>Method := ''POST''\<rparr>) \<sigma>
       \<and> webhook decode create config w (r\<lparr>Method := m\<rparr>) \<sigma> =
           webhook decode create config w r \<sigma>"
proof -
  have route: "map_of handlers ''/webhook'' = Some Webhook"
    by (simp add: handlers_def)
  have same: "webhook decode create config w (r\<lparr>Method := n\<rparr>) \<sigma> =
           webhook decode create config w r \<sigma>" for n
    by (simp add: webhook_def readRequestBody_def)
  have "serve decode create config other w (r\<lparr>Method := n\<rparr>) \<sigma> =
           webhook decode create config w r \<sigma>" for n
    using assms by (simp add: serve_def route same)
  with same show ?thesis
    by simp
qed

theorem webhook_any_method_witness:
  "URL_Path (request ''POST'' ''good'') = ''/webhook''
   \<and> serve stub_decode stub_create config0 (\<lambda>w r \<sigma>. (w, \<sigma>)) [] (request ''DELETE'' ''good'')
        world0 =
       ([WriteHeader 200,
         Write (JObject [(''Status'', JNumber 200), (''Message'', JString ''Success'')])],
        \<lparr>snClient = 2, createCalls = [alertToIncident alert_G, alertToIncident alert_G']\<rparr>)
   \<and> webhook stub_decode stub_create config0 [] (request ''POST'' ''good'') world0 =
       ([WriteHeader 200,
         Write (JObject [(''Status'', JNumber 200), (''Message'', JString ''Success'')])],
        \<lparr>snClient = 2, createCalls = [alertToIncident alert_G, alertToIncident alert_G']\<rparr>)"
proof -
  have h: "URL_Path (request ''POST'' ''good'') = ''/webhook''"
    by (simp add: request_def)
  have m: "(request ''POST'' ''good'')\<lparr>Method := n\<rparr> = request n ''good''" for n
    by (simp add: request_def)
  note t = webhook_any_method [OF h, of stub_decode stub_create config0 "\<lambda>w r \<sigma>. (w, \<sigma>)" "[]"
      "''DELETE''" world0]
  from t have "serve stub_decode stub_create config0 (\<lambda>w r \<sigma>. (w, \<sigma>)) []
       (request ''DELETE'' ''good'') world0 =
     webhook stub_decode stub_create config0 [] (request ''POST'' ''good'') world0"
    by (simp add: m)
  with h show ?thesis
    by (simp add: webhook_good)
qed

end
